theory Spec2Isabelle
  imports Complex_Main
begin

section \<open>The fitness tracker module \<^verbatim>\<open>homework.py\<close>\<close>

text \<open>
  The module turns sensor packages of three workout kinds into a one-line report.
  Numbers are modelled as exact reals: Python's ints embed in its floats under
  \<^verbatim>\<open>*\<close> and \<^verbatim>\<open>/\<close>, the dataclass annotations are not
  enforced at run time, and the rounding of binary floating point is left out.
  A Python \<^verbatim>\<open>str\<close> is a sequence of code points, here a list of naturals.
\<close>

subsection \<open>Strings and exceptions\<close>

type_synonym ustring = "nat list"

definition ascii :: "string \<Rightarrow> ustring" where
  "ascii s = map of_char s"

datatype py_error =
    ValueError ustring
  | TypeError
  | ZeroDivisionError
  | NotImplementedError

text \<open>The class name of an exception, as \<^verbatim>\<open>type(e).__name__\<close> gives it.\<close>

fun exc_name :: "py_error \<Rightarrow> string" where
  "exc_name (ValueError _) = ''ValueError''"
| "exc_name TypeError = ''TypeError''"
| "exc_name ZeroDivisionError = ''ZeroDivisionError''"
| "exc_name NotImplementedError = ''NotImplementedError''"

text \<open>True division \<^verbatim>\<open>a / b\<close>: a zero divisor raises.\<close>

definition py_truediv :: "real \<Rightarrow> real \<Rightarrow> py_error + real" where
  "py_truediv a b = (if b = 0 then Inl ZeroDivisionError else Inr (a / b))"

subsection \<open>The training classes\<close>

text \<open>
  \<^verbatim>\<open>Training\<close> is a dataclass with the fields action, duration and weight;
  \<^verbatim>\<open>Running\<close> adds none, \<^verbatim>\<open>SportsWalking\<close> adds height,
  \<^verbatim>\<open>Swimming\<close> adds length_pool and count_pool. The constructor tags the
  class of the object.
\<close>

datatype training =
    Training (action: real) (duration: real) (weight: real)
  | Running (action: real) (duration: real) (weight: real)
  | SportsWalking (action: real) (duration: real) (weight: real) (height: real)
  | Swimming (action: real) (duration: real) (weight: real)
      (length_pool: real) (count_pool: real)

fun class_name :: "training \<Rightarrow> string" where
  "class_name (Training _ _ _) = ''Training''"
| "class_name (Running _ _ _) = ''Running''"
| "class_name (SportsWalking _ _ _ _) = ''SportsWalking''"
| "class_name (Swimming _ _ _ _ _) = ''Swimming''"

definition MIN_IN_HOUR :: real where
  "MIN_IN_HOUR = 60"

definition M_IN_KM :: real where
  "M_IN_KM = 1000"

text \<open>\<^verbatim>\<open>self.LEN_STEP\<close>: the class attribute, which Swimming redefines.\<close>

fun LEN_STEP :: "training \<Rightarrow> real" where
  "LEN_STEP (Swimming _ _ _ _ _) = 1.38"
| "LEN_STEP _ = 0.65"

definition CALORIES_MEAN_SPEED_MULTIPLIER :: real where
  "CALORIES_MEAN_SPEED_MULTIPLIER = 18"

definition CALORIES_MEAN_SPEED_SHIFT :: real where
  "CALORIES_MEAN_SPEED_SHIFT = 1.79"

definition SportsWalking_COEFF_1 :: real where
  "SportsWalking_COEFF_1 = 0.035"

definition SportsWalking_COEFF_2 :: real where
  "SportsWalking_COEFF_2 = 0.029"

definition SM_M :: real where
  "SM_M = 100"

definition M_SEC :: real where
  "M_SEC = 0.278"

definition Swimming_COEFF_1 :: real where
  "Swimming_COEFF_1 = 1.1"

definition Swimming_COEFF_2 :: real where
  "Swimming_COEFF_2 = 2"

definition get_distance :: "training \<Rightarrow> real" where
  "get_distance t = action t * LEN_STEP t / M_IN_KM"

fun get_mean_speed :: "training \<Rightarrow> py_error + real" where
  "get_mean_speed (Swimming a d w lp cp) = py_truediv (lp * cp / M_IN_KM) d"
| "get_mean_speed t = py_truediv (get_distance t) (duration t)"

fun get_spent_calories :: "training \<Rightarrow> py_error + real" where
  "get_spent_calories (Training a d w) = Inl NotImplementedError"
| "get_spent_calories (Running a d w) =
     (case get_mean_speed (Running a d w) of
        Inl e \<Rightarrow> Inl e
      | Inr v \<Rightarrow>
          Inr ((CALORIES_MEAN_SPEED_MULTIPLIER * v + CALORIES_MEAN_SPEED_SHIFT) * w
               / M_IN_KM * (d * MIN_IN_HOUR)))"
| "get_spent_calories (SportsWalking a d w h) =
     (case get_mean_speed (SportsWalking a d w h) of
        Inl e \<Rightarrow> Inl e
      | Inr v \<Rightarrow>
          (case py_truediv ((v * M_SEC) ^ 2) (h / SM_M) of
             Inl e \<Rightarrow> Inl e
           | Inr q \<Rightarrow>
               Inr ((SportsWalking_COEFF_1 * w + q * SportsWalking_COEFF_2 * w)
                    * (d * MIN_IN_HOUR))))"
| "get_spent_calories (Swimming a d w lp cp) =
     (case get_mean_speed (Swimming a d w lp cp) of
        Inl e \<Rightarrow> Inl e
      | Inr v \<Rightarrow> Inr ((v + Swimming_COEFF_1) * Swimming_COEFF_2 * w * d))"

subsection \<open>Reading a package\<close>

text \<open>
  The \<^verbatim>\<open>__init__\<close> that \<^verbatim>\<open>@dataclass\<close> generates takes the
  fields positionally; \<^verbatim>\<open>cls(*data)\<close> with too few or too many values
  raises \<^verbatim>\<open>TypeError\<close>.
\<close>

fun construct_Running :: "real list \<Rightarrow> py_error + training" where
  "construct_Running [a, d, w] = Inr (Running a d w)"
| "construct_Running _ = Inl TypeError"

fun construct_SportsWalking :: "real list \<Rightarrow> py_error + training" where
  "construct_SportsWalking [a, d, w, h] = Inr (SportsWalking a d w h)"
| "construct_SportsWalking _ = Inl TypeError"

fun construct_Swimming :: "real list \<Rightarrow> py_error + training" where
  "construct_Swimming [a, d, w, lp, cp] = Inr (Swimming a d w lp cp)"
| "construct_Swimming _ = Inl TypeError"

definition storage_data :: "ustring \<rightharpoonup> (real list \<Rightarrow> py_error + training)" where
  "storage_data =
     [ascii ''SWM'' \<mapsto> construct_Swimming,
      ascii ''RUN'' \<mapsto> construct_Running,
      ascii ''WLK'' \<mapsto> construct_SportsWalking]"

text \<open>The message of the \<^verbatim>\<open>ValueError\<close>: the Russian for "Unsupported workout type".\<close>

definition unsupported_message :: ustring where
  "unsupported_message =
     [0x41D, 0x435, 0x43F, 0x43E, 0x434, 0x434, 0x435, 0x440, 0x436, 0x438, 0x432,
      0x430, 0x435, 0x43C, 0x44B, 0x439, 32, 0x442, 0x438, 0x43F, 32, 0x442, 0x440,
      0x435, 0x43D, 0x438, 0x440, 0x43E, 0x432, 0x43A, 0x438]"

definition read_package :: "ustring \<Rightarrow> real list \<Rightarrow> py_error + training" where
  "read_package workout_type data =
     (case storage_data workout_type of
        None \<Rightarrow> Inl (ValueError unsupported_message)
      | Some cls \<Rightarrow> cls data)"

subsection \<open>The information message\<close>

datatype info_message =
  InfoMessage (training_type: ustring) (info_duration: real) (distance: real)
    (speed: real) (calories: real)

text \<open>The arguments of \<^verbatim>\<open>InfoMessage(...)\<close> are evaluated from left to right.\<close>

definition show_training_info :: "training \<Rightarrow> py_error + info_message" where
  "show_training_info t =
     (case get_mean_speed t of
        Inl e \<Rightarrow> Inl e
      | Inr v \<Rightarrow>
          (case get_spent_calories t of
             Inl e \<Rightarrow> Inl e
           | Inr c \<Rightarrow>
               Inr (InfoMessage (ascii (class_name t)) (duration t) (get_distance t) v c)))"

text \<open>
  The format specification \<^verbatim>\<open>.3f\<close>: the nearest decimal with three fractional
  digits, a tie going to the even neighbour, with a minus sign for a negative number.
\<close>

definition round_half_even :: "real \<Rightarrow> int" where
  "round_half_even x =
     (let f = \<lfloor>x\<rfloor>; r = x - of_int f
      in if r < 1 / 2 then f
         else if 1 / 2 < r then f + 1
         else if even f then f else f + 1)"

fun digits :: "nat \<Rightarrow> ustring" where
  "digits n = (if n < 10 then [48 + n] else digits (n div 10) @ [48 + n mod 10])"

declare digits.simps [simp del]












subsection \<open>Properties of the output, used to state the claims\<close>



section \<open>Verification\<close>

lemmas class_constants =
  MIN_IN_HOUR_def M_IN_KM_def CALORIES_MEAN_SPEED_MULTIPLIER_def
  CALORIES_MEAN_SPEED_SHIFT_def SportsWalking_COEFF_1_def SportsWalking_COEFF_2_def
  SM_M_def M_SEC_def Swimming_COEFF_1_def Swimming_COEFF_2_def

subsection \<open>Running\<close>

text \<open>
  C1. For a Running record whose duration is not zero, the calories are
  (18 * mean_speed + 1.79) * weight / 1000 * duration * 60, where the mean speed is
  action * 0.65 / 1000 / duration.
\<close>

theorem running_calories:
  assumes "d \<noteq> 0"
  shows "get_mean_speed (Running a d w) = Inr (a * 0.65 / 1000 / d)
    \<and> get_spent_calories (Running a d w)
        = Inr ((18 * (a * 0.65 / 1000 / d) + 1.79) * w / 1000 * d * 60)"
  using assms by (simp add: py_truediv_def get_distance_def class_constants)

theorem running_calories_witness:
  "(1::real) \<noteq> 0
    \<and> get_mean_speed (Running 15000 1 75) = Inr (15000 * 0.65 / 1000 / 1)
    \<and> get_spent_calories (Running 15000 1 75)
        = Inr ((18 * (15000 * 0.65 / 1000 / 1) + 1.79) * 75 / 1000 * 1 * 60)"
  using running_calories [where d = 1 and a = 15000 and w = 75]
  by (simp add: py_truediv_def get_distance_def class_constants)

subsection \<open>Race walking\<close>

text \<open>
  C2. For a SportsWalking (race walking) record whose duration and height are not zero,
  the calories are
  (0.035 * weight + ((mean_speed * 0.278) ** 2 / (height / 100)) * 0.029 * weight)
  * duration * 60, where the mean speed is the default one.
\<close>

theorem sports_walking_calories:
  assumes "d \<noteq> 0" and "h \<noteq> 0"
  shows "get_mean_speed (SportsWalking a d w h) = Inr (a * 0.65 / 1000 / d)
    \<and> get_spent_calories (SportsWalking a d w h)
        = Inr ((0.035 * w + (((a * 0.65 / 1000 / d) * 0.278) ^ 2 / (h / 100)) * 0.029 * w)
               * d * 60)"
  using assms by (simp add: py_truediv_def get_distance_def class_constants)

theorem sports_walking_calories_witness:
  "(1::real) \<noteq> 0 \<and> (180::real) \<noteq> 0
    \<and> get_mean_speed (SportsWalking 9000 1 75 180) = Inr (9000 * 0.65 / 1000 / 1)
    \<and> get_spent_calories (SportsWalking 9000 1 75 180)
        = Inr ((0.035 * 75 + (((9000 * 0.65 / 1000 / 1) * 0.278) ^ 2 / (180 / 100))
                 * 0.029 * 75) * 1 * 60)"
  using sports_walking_calories [where d = 1 and h = 180 and a = 9000 and w = 75]
  by (simp add: py_truediv_def get_distance_def class_constants)

subsection \<open>Swimming\<close>

text \<open>
  C3. For a Swimming record whose duration is not zero, the mean speed is
  length_pool * count_pool / 1000 / duration. The class overrides the default, which
  divides the distance by the duration: the two differ unless
  length_pool * count_pool happens to be action * 1.38.
\<close>

theorem swimming_mean_speed:
  assumes "d \<noteq> 0"
  shows "get_mean_speed (Swimming a d w lp cp) = Inr (lp * cp / 1000 / d)
    \<and> (lp * cp \<noteq> a * 1.38
        \<longrightarrow> get_mean_speed (Swimming a d w lp cp)
            \<noteq> Inr (get_distance (Swimming a d w lp cp) / d))"
  using assms by (simp add: py_truediv_def get_distance_def class_constants field_simps)

theorem swimming_mean_speed_witness:
  "(1::real) \<noteq> 0 \<and> get_mean_speed (Swimming 720 1 80 25 40) = Inr (25 * 40 / 1000 / 1)
    \<and> (25::real) * 40 \<noteq> 720 * 1.38
    \<and> get_mean_speed (Swimming 720 1 80 25 40)
        \<noteq> Inr (get_distance (Swimming 720 1 80 25 40) / 1)"
  using swimming_mean_speed [where d = 1 and a = 720 and w = 80 and lp = 25 and cp = 40]
  by (simp add: py_truediv_def get_distance_def class_constants)

text \<open>
  C9. Two Swimming records with the same pool length, lap count and duration have the
  same mean speed, whatever their action counts (and weights) are.
\<close>

theorem swimming_mean_speed_ignores_action:
  "get_mean_speed (Swimming a1 d w1 lp cp) = get_mean_speed (Swimming a2 d w2 lp cp)"
  by simp

text \<open>
  C6. The package ("SWM", [720, 1, 80, 25, 40]) gives a Swimming record with distance
  720 * 1.38 / 1000 = 0.9936, mean speed 25 * 40 / 1000 / 1 = 1.0 and calories
  (1.0 + 1.1) * 2 * 80 * 1 = 336.0.
\<close>

theorem swimming_scenario:
  "read_package (ascii ''SWM'') [720, 1, 80, 25, 40] = Inr (Swimming 720 1 80 25 40)
    \<and> get_distance (Swimming 720 1 80 25 40) = 720 * 1.38 / 1000
    \<and> get_distance (Swimming 720 1 80 25 40) = 0.9936
    \<and> get_mean_speed (Swimming 720 1 80 25 40) = Inr 1.0
    \<and> get_spent_calories (Swimming 720 1 80 25 40) = Inr 336.0
    \<and> show_training_info (Swimming 720 1 80 25 40)
        = Inr (InfoMessage (ascii ''Swimming'') 1 0.9936 1.0 336.0)"
  by (simp add: read_package_def storage_data_def ascii_def show_training_info_def
      py_truediv_def get_distance_def class_constants)

subsection \<open>The running scenario\<close>

text \<open>
  C7, as the code has it. The package ("RUN", [15000, 1, 75]) gives a Running record with
  distance 15000 * 0.65 / 1000 = 9.75, mean speed 9.75 / 1 = 9.75 and calories
  (18 * 9.75 + 1.79) * 75 / 1000 * (1 * 60) = 797.805.
\<close>

theorem running_scenario:
  "read_package (ascii ''RUN'') [15000, 1, 75] = Inr (Running 15000 1 75)
    \<and> get_distance (Running 15000 1 75) = 9.75
    \<and> get_mean_speed (Running 15000 1 75) = Inr 9.75
    \<and> get_spent_calories (Running 15000 1 75) = Inr 797.805
    \<and> (18 * 9.75 + 1.79) * 75 / 1000 * (1 * 60) = (797.805 :: real)"
  by (simp add: read_package_def storage_data_def ascii_def
      py_truediv_def get_distance_def class_constants)

text \<open>
  C7, as the claim states it, fails: the calories of that package are 797.805, which is
  not 792.84, and the two differ by more than 4.
\<close>

theorem running_scenario_counterexample:
  "read_package (ascii ''RUN'') [15000, 1, 75] = Inr (Running 15000 1 75)
    \<and> get_spent_calories (Running 15000 1 75) \<noteq> Inr 792.84
    \<and> (case get_spent_calories (Running 15000 1 75) of
          Inl e \<Rightarrow> False
        | Inr c \<Rightarrow> 4 < \<bar>c - 792.84\<bar>)"
  by (simp add: read_package_def storage_data_def ascii_def
      py_truediv_def get_distance_def class_constants)

subsection \<open>Dispatch\<close>

lemma construct_Running_arity:
  "length data \<noteq> 3 \<Longrightarrow> construct_Running data = Inl TypeError"
  by (cases data rule: construct_Running.cases) simp_all

lemma construct_SportsWalking_arity:
  "length data \<noteq> 4 \<Longrightarrow> construct_SportsWalking data = Inl TypeError"
  by (cases data rule: construct_SportsWalking.cases) simp_all

lemma construct_Swimming_arity:
  "length data \<noteq> 5 \<Longrightarrow> construct_Swimming data = Inl TypeError"
  by (cases data rule: construct_Swimming.cases) simp_all

lemma storage_data_codes:
  "storage_data (ascii ''SWM'') = Some construct_Swimming"
  "storage_data (ascii ''RUN'') = Some construct_Running"
  "storage_data (ascii ''WLK'') = Some construct_SportsWalking"
  by (simp_all add: storage_data_def ascii_def)

lemma storage_data_other:
  assumes "code \<noteq> ascii ''SWM''" and "code \<noteq> ascii ''RUN''" and "code \<noteq> ascii ''WLK''"
  shows "storage_data code = None"
  using assms by (simp add: storage_data_def)

text \<open>
  C5, as the code has it. With a recognised code and as many values as the class has
  fields, \<^verbatim>\<open>read_package\<close> returns the record of the matching class; with any other
  code it raises the same \<^verbatim>\<open>ValueError\<close>, whose message is fixed and does not
  hold the code.
\<close>

theorem read_package_dispatch:
  "read_package (ascii ''SWM'') [a, d, w, lp, cp] = Inr (Swimming a d w lp cp)
    \<and> read_package (ascii ''RUN'') [a, d, w] = Inr (Running a d w)
    \<and> read_package (ascii ''WLK'') [a, d, w, h] = Inr (SportsWalking a d w h)
    \<and> (code \<noteq> ascii ''SWM'' \<and> code \<noteq> ascii ''RUN'' \<and> code \<noteq> ascii ''WLK''
        \<longrightarrow> read_package code data = Inl (ValueError unsupported_message))"
  by (simp add: read_package_def storage_data_codes storage_data_other)

theorem read_package_dispatch_witness:
  "read_package (ascii ''SWM'') [720, 1, 80, 25, 40] = Inr (Swimming 720 1 80 25 40)
    \<and> read_package (ascii ''RUN'') [720, 1, 80] = Inr (Running 720 1 80)
    \<and> read_package (ascii ''WLK'') [720, 1, 80, 180] = Inr (SportsWalking 720 1 80 180)
    \<and> ascii ''XYZ'' \<noteq> ascii ''SWM'' \<and> ascii ''XYZ'' \<noteq> ascii ''RUN''
    \<and> ascii ''XYZ'' \<noteq> ascii ''WLK''
    \<and> read_package (ascii ''XYZ'') [1, 1, 1] = Inl (ValueError unsupported_message)"
  using read_package_dispatch
    [where a = 720 and d = 1 and w = 80 and lp = 25 and cp = 40 and h = 180
       and code = "ascii ''XYZ''" and data = "[1, 1, 1]"]
  by (simp add: ascii_def)

text \<open>
  C5, as the claim states it, fails twice: a recognised code with too few values gives
  no record, and the error of an unknown code is the same for two different codes, so
  it does not carry the code.
\<close>

theorem read_package_dispatch_counterexample:
  "read_package (ascii ''RUN'') [1, 1] = Inl TypeError
    \<and> read_package (ascii ''XYZ'') [1, 1, 1] = Inl (ValueError unsupported_message)
    \<and> read_package (ascii ''ABC'') [1, 1, 1] = read_package (ascii ''XYZ'') [1, 1, 1]
    \<and> ascii ''ABC'' \<noteq> ascii ''XYZ''
    \<and> unsupported_message \<noteq> ascii ''XYZ''"
  by (simp add: read_package_def storage_data_def ascii_def unsupported_message_def)

text \<open>
  C8, as the code has it. With a recognised code and a number of values other than
  the number of fields of its class (3 for Running, 4 for SportsWalking, 5 for
  Swimming), \<^verbatim>\<open>read_package\<close> raises the \<^verbatim>\<open>TypeError\<close> of the constructor
  call and returns no record.
\<close>

theorem read_package_arity:
  assumes "(code = ascii ''RUN'' \<and> length data \<noteq> 3)
    \<or> (code = ascii ''WLK'' \<and> length data \<noteq> 4)
    \<or> (code = ascii ''SWM'' \<and> length data \<noteq> 5)"
  shows "read_package code data = Inl TypeError"
  using assms
  by (auto simp add: read_package_def storage_data_codes construct_Running_arity
      construct_SportsWalking_arity construct_Swimming_arity)

theorem read_package_arity_witness:
  "length [15000, 1, 75, 180 :: real] \<noteq> 3
    \<and> read_package (ascii ''RUN'') [15000, 1, 75, 180] = Inl TypeError
    \<and> length [9000, 1, 75 :: real] \<noteq> 4
    \<and> read_package (ascii ''WLK'') [9000, 1, 75] = Inl TypeError
    \<and> length ([] :: real list) \<noteq> 5
    \<and> read_package (ascii ''SWM'') [] = Inl TypeError"
  using read_package_arity [where code = "ascii ''RUN''" and data = "[15000, 1, 75, 180]"]
    read_package_arity [where code = "ascii ''WLK''" and data = "[9000, 1, 75]"]
    read_package_arity [where code = "ascii ''SWM''" and data = "[]"]
  by simp

text \<open>
  C8, as the claim states it, fails: the exception of a package with a missing value
  is the built-in \<^verbatim>\<open>TypeError\<close>, not an error of a kind named ArityMismatch.
\<close>

theorem read_package_arity_counterexample:
  "read_package (ascii ''WLK'') [9000, 1, 75] = Inl TypeError
    \<and> exc_name TypeError = ''TypeError''
    \<and> exc_name TypeError \<noteq> ''ArityMismatch''"
  by (simp add: read_package_def storage_data_def ascii_def)

subsection \<open>The formatted message\<close>









text \<open>
  What \<^verbatim>\<open>.3f\<close> writes denotes a number within half a thousandth of the
  argument: the rounding is to a nearest integer, and the digits denote it.
\<close>

lemma round_half_even_near: "\<bar>of_int (round_half_even x) - x\<bar> \<le> 1 / 2"
proof -
  have "of_int \<lfloor>x\<rfloor> \<le> x" and "x < of_int \<lfloor>x\<rfloor> + 1"
    by linarith+
  then show ?thesis
    by (auto simp add: round_half_even_def Let_def)
qed

lemma digits_value: "foldl (\<lambda>a c. 10 * a + (c - 48)) 0 (digits n) = n"
proof (induction n rule: digits.induct)
  case (1 n)
  show ?case
  proof (cases "n < 10")
    case True
    then show ?thesis by (subst digits.simps) simp
  next
    case False
    with "1.IH" show ?thesis by (subst digits.simps) simp
  qed
qed








subsection \<open>Zero and negative measurements\<close>



end
